theory Spec2Isabelle
  imports Complex_Main
begin

section \<open>JavaScript values of a request body\<close>

text \<open>
  The body of a request is what \<^verbatim>\<open>bodyParser.json()\<close> hands to the handler: a parsed
  JSON value. \<open>JUndefined\<close> is the value of a property that is not there. A number is a
  rational: every finite double is one, and the handler only compares numbers with zero.
  An object is the list of its members; the first binding of a key is the member's value.
\<close>

datatype jsval =
    JUndefined
  | JNull
  | JBool bool
  | JNum rat
  | JStr string
  | JArr "jsval list"
  | JObj "(string \<times> jsval) list"

text \<open>Truthiness, as \<^verbatim>\<open>if (v)\<close>, \<^verbatim>\<open>!v\<close> and \<^verbatim>\<open>a || b\<close> read a value.\<close>

fun truthy :: "jsval \<Rightarrow> bool" where
  "truthy JUndefined = False"
| "truthy JNull = False"
| "truthy (JBool b) = b"
| "truthy (JNum r) = (r \<noteq> 0)"
| "truthy (JStr s) = (s \<noteq> [])"
| "truthy (JArr vs) = True"
| "truthy (JObj kvs) = True"

text \<open>
  Member access \<^verbatim>\<open>v.k\<close> for the keys the handler reads (\<^verbatim>\<open>properties\<close>,
  \<^verbatim>\<open>geometry\<close>, \<^verbatim>\<open>step\<close>, \<^verbatim>\<open>stepIndex\<close>, \<^verbatim>\<open>completed\<close>, \<^verbatim>\<open>data\<close>,
  \<^verbatim>\<open>type\<close>, \<^verbatim>\<open>coordinates\<close>): on an object it is the member or \<^verbatim>\<open>undefined\<close>, on
  any other value that has members it is \<^verbatim>\<open>undefined\<close>. Reading a member of
  \<^verbatim>\<open>undefined\<close> or \<^verbatim>\<open>null\<close> throws a TypeError: the handler's model tests
  \<open>nullish\<close> before it reads.
\<close>

fun nullish :: "jsval \<Rightarrow> bool" where
  "nullish JUndefined = True"
| "nullish JNull = True"
| "nullish v = False"

fun member :: "jsval \<Rightarrow> string \<Rightarrow> jsval" where
  "member (JObj kvs) k = (case map_of kvs k of None \<Rightarrow> JUndefined | Some v \<Rightarrow> v)"
| "member v k = JUndefined"

section \<open>The table \<^verbatim>\<open>locations\<close>\<close>

text \<open>
  One row of \<^verbatim>\<open>public.locations\<close> (the \<^verbatim>\<open>createTable\<close> statement). Columns that may be
  NULL are options. Timestamps are points of a clock read by the database.
\<close>

record location =
  uuid :: string
  session :: string
  step :: string
  step_index :: int
  completed :: bool
  image_id :: "string option"
  date_created :: nat
  date_modified :: nat
  data :: "jsval option"
  client :: "string option"
  geometry :: "jsval option"
  centroid :: "string option"

text \<open>The table is the list of its rows; the primary key is \<^verbatim>\<open>(uuid, session, step)\<close>.\<close>

type_synonym locations = "location list"

definition pkey :: "location \<Rightarrow> string \<times> string \<times> string" where
  "pkey r = (uuid r, session r, step r)"

definition locations_pkey :: "locations \<Rightarrow> bool" where
  "locations_pkey db = distinct (map pkey db)"

definition lookup_row :: "locations \<Rightarrow> string \<times> string \<times> string \<Rightarrow> location option" where
  "lookup_row db k = find (\<lambda>r. pkey r = k) db"

text \<open>
  The statement of the handler:
  \<^verbatim>\<open>INSERT INTO locations (...) VALUES (...)
  ON CONFLICT (uuid, session, step) WHERE NOT completed
  DO UPDATE SET step_index = EXCLUDED.step_index, completed = EXCLUDED.completed,
    date_modified = current_timestamp at time zone 'UTC', data = EXCLUDED.data,
    client = EXCLUDED.client, geometry = EXCLUDED.geometry, centroid = EXCLUDED.centroid
  WHERE EXCLUDED.completed;\<close>
  The predicate \<^verbatim>\<open>WHERE NOT completed\<close> after the conflict target only takes part in
  choosing the arbiter index: a unique index without a predicate, here the primary key,
  satisfies it, so every existing row with the proposed key is a conflict. The condition
  of \<^verbatim>\<open>DO UPDATE\<close> is \<^verbatim>\<open>EXCLUDED.completed\<close>, the flag of the proposed row: the
  existing row is updated when it holds and left as it is otherwise. \<open>excluded\<close> is the
  proposed row and \<open>now\<close> the current timestamp; an inserted row takes both timestamp
  defaults.
\<close>

definition do_update :: "nat \<Rightarrow> location \<Rightarrow> location \<Rightarrow> location" where
  "do_update now excluded r =
     r\<lparr>step_index := step_index excluded,
       completed := completed excluded,
       date_modified := now,
       data := data excluded,
       client := client excluded,
       geometry := geometry excluded,
       centroid := centroid excluded\<rparr>"

fun upsert :: "nat \<Rightarrow> location \<Rightarrow> locations \<Rightarrow> locations" where
  "upsert now excluded [] = [excluded\<lparr>date_created := now, date_modified := now\<rparr>]"
| "upsert now excluded (r # db) =
     (if pkey r = pkey excluded
      then (if completed excluded then do_update now excluded r else r) # db
      else r # upsert now excluded db)"

subsection \<open>The latest step of each session\<close>

text \<open>
  \<^verbatim>\<open>SELECT * FROM (
    SELECT uuid, session, MAX(step_index) AS max_step FROM locations
    WHERE completed GROUP BY uuid, session
  ) AS s JOIN locations l ON l.step_index = max_step AND s.uuid = l.uuid AND s.session = l.session
  ORDER BY date_modified DESC\<close>
  The subquery \<open>s\<close> has one row for each pair \<^verbatim>\<open>(uuid, session)\<close> of a completed row.
  The join is with every row of the table, completed or not.
\<close>

definition max_step :: "locations \<Rightarrow> string \<times> string \<Rightarrow> int option" where
  "max_step db g =
     (case map step_index (filter (\<lambda>r. completed r \<and> (uuid r, session r) = g) db) of
        [] \<Rightarrow> None
      | i # is \<Rightarrow> Some (fold max is i))"

definition subquery_s :: "locations \<Rightarrow> ((string \<times> string) \<times> int) list" where
  "subquery_s db =
     concat (map (\<lambda>g. case max_step db g of None \<Rightarrow> [] | Some m \<Rightarrow> [(g, m)])
       (remdups (map (\<lambda>r. (uuid r, session r)) (filter completed db))))"

definition joined :: "locations \<Rightarrow> location list" where
  "joined db =
     concat (map (\<lambda>(g, m). filter (\<lambda>l. step_index l = m \<and> g = (uuid l, session l)) db)
       (subquery_s db))"

definition locationsQuery :: "locations \<Rightarrow> location list" where
  "locationsQuery db = rev (sort_key date_modified (joined db))"

definition locationsQuery_limit :: "locations \<Rightarrow> location list" where
  \<comment> \<open>\<^verbatim>\<open>${locationsQuery} LIMIT 100\<close>\<close>
  "locationsQuery_limit db = take 100 (locationsQuery db)"

section \<open>What the handlers take from their libraries and from the outside\<close>

text \<open>
  The libraries are not part of this program; the handlers are verified for every
  behaviour of them:
  \<^item> \<open>verify\<close>: \<^verbatim>\<open>jwt.verify(token, KEY)\<close>, the session of a credential signed with the
    key, \<open>None\<close> when verification fails;
  \<^item> \<open>sign\<close>: \<^verbatim>\<open>jwt.sign({ session: session }, KEY)\<close>;
  \<^item> \<open>hint\<close>: \<^verbatim>\<open>geojsonhint.hint(feature).map((err) => err.message)\<close>;
  \<^item> \<open>to_number\<close>: the number a string, an array or an object is converted to by
    \<^verbatim>\<open>>=\<close>, \<open>None\<close> for NaN;
  \<^item> \<open>num_string\<close>: the text of a number that is not an integer, as \<^verbatim>\<open>join\<close> writes it;
  \<^item> \<open>centroid_other\<close>: \<^verbatim>\<open>turf.centroid\<close> on a geometry that is not a Point;
  \<^item> \<open>pg_text\<close> and \<open>pg_int\<close>: the value the database stores in a \<^verbatim>\<open>text\<close> and in an
    \<^verbatim>\<open>integer\<close> column for a parameter of the statement; \<open>pg_int\<close> is the error
    message when the database refuses the parameter.
\<close>

record env =
  verify :: "string \<Rightarrow> string option"
  sign :: "string \<Rightarrow> string"
  hint :: "jsval \<Rightarrow> string list"
  to_number :: "jsval \<Rightarrow> rat option"
  num_string :: "rat \<Rightarrow> string"
  centroid_other :: "jsval \<Rightarrow> rat list option"
  pg_text :: "jsval \<Rightarrow> string"
  pg_int :: "jsval \<Rightarrow> string + int"

text \<open>A catalog item: \<^verbatim>\<open>items[uuid]\<close> is read for its \<^verbatim>\<open>imageID\<close> and sent as it is.\<close>

record item =
  item_uuid :: string
  imageID :: "string option"

type_synonym items = "string \<Rightarrow> item option"

record request =
  param_uuid :: string
  authorization :: "string option"
  body :: jsval
  x_forwarded_for :: "string option"
  remoteAddress :: "string option"

text \<open>\<^verbatim>\<open>!req.headers.authorization\<close>: the header is not there, or it is the empty string.\<close>

definition no_authorization :: "request \<Rightarrow> bool" where
  "no_authorization req = (case authorization req of None \<Rightarrow> True | Some t \<Rightarrow> t = [])"

section \<open>Credentials\<close>

text \<open>
  \<^verbatim>\<open>checkOrCreateToken\<close> sets the \<^verbatim>\<open>Authorization\<close> header of the response and calls
  \<^verbatim>\<open>next()\<close>. \<open>fresh\<close> is the result of \<^verbatim>\<open>randomString()\<close>.
\<close>

definition checkOrCreateToken :: "env \<Rightarrow> string \<Rightarrow> request \<Rightarrow> string" where
  "checkOrCreateToken e fresh req =
     (if no_authorization req then sign e fresh
      else (case authorization req of Some t \<Rightarrow> t | None \<Rightarrow> []))"

text \<open>
  \<^verbatim>\<open>checkToken\<close>: \<open>None\<close> is the answer 401 \<^verbatim>\<open>Not authorized\<close>, \<open>Some s\<close> is
  \<^verbatim>\<open>req.session = decoded.session; next()\<close>.
\<close>

definition checkToken :: "env \<Rightarrow> request \<Rightarrow> string option" where
  "checkToken e req =
     (if no_authorization req then None
      else (case authorization req of Some t \<Rightarrow> verify e t | None \<Rightarrow> None))"

text \<open>The answer of a read endpoint: its status, its header and the item it sends.\<close>

record item_response =
  status :: nat
  authorization_header :: string
  sent :: "item option"

definition sendItem :: "items \<Rightarrow> string \<Rightarrow> string option \<Rightarrow> item_response" where
  \<comment> \<open>\<open>hdr\<close> is the header set before; \<open>u\<close> is \<open>None\<close> for \<^verbatim>\<open>undefined\<close>.\<close>
  "sendItem its hdr u =
     (case u of
        None \<Rightarrow> \<lparr>status = 404, authorization_header = hdr, sent = None\<rparr>
      | Some k \<Rightarrow>
          (if k \<noteq> [] \<and> its k \<noteq> None
           then \<lparr>status = 200, authorization_header = hdr, sent = its k\<rparr>
           else \<lparr>status = 404, authorization_header = hdr, sent = None\<rparr>))"

definition get_item :: "env \<Rightarrow> items \<Rightarrow> string \<Rightarrow> request \<Rightarrow> item_response" where
  \<comment> \<open>\<^verbatim>\<open>app.get('/items/:uuid', checkOrCreateToken, ...)\<close>\<close>
  "get_item e its fresh req =
     sendItem its (checkOrCreateToken e fresh req) (Some (param_uuid req))"

definition get_random :: "env \<Rightarrow> items \<Rightarrow> string list \<Rightarrow> nat \<Rightarrow> string \<Rightarrow> request \<Rightarrow> item_response" where
  \<comment> \<open>\<^verbatim>\<open>app.get('/items/random', checkOrCreateToken, ...)\<close>: \<open>n\<close> is
      \<^verbatim>\<open>Math.floor(Math.random() * uuids.length)\<close>; an index outside \<^verbatim>\<open>uuids\<close> reads
      \<^verbatim>\<open>undefined\<close>.\<close>
  "get_random e its uuids n fresh req =
     sendItem its (checkOrCreateToken e fresh req)
       (if n < length uuids then Some (uuids ! n) else None)"

section \<open>Submitting a step\<close>

text \<open>
  \<^verbatim>\<open>feature.properties.stepIndex >= 0\<close>: the value is converted to a number and compared;
  \<^verbatim>\<open>undefined\<close> converts to NaN, \<^verbatim>\<open>null\<close> to 0, \<^verbatim>\<open>false\<close> and \<^verbatim>\<open>true\<close> to 0 and 1.
\<close>

fun ge0 :: "env \<Rightarrow> jsval \<Rightarrow> bool" where
  "ge0 e JUndefined = False"
| "ge0 e JNull = True"
| "ge0 e (JBool b) = True"
| "ge0 e (JNum r) = (0 \<le> r)"
| "ge0 e v = (case to_number e v of None \<Rightarrow> False | Some r \<Rightarrow> 0 \<le> r)"

text \<open>
  The text of a number in \<^verbatim>\<open>coordinates.join(',')\<close>. An integer of magnitude up to
  \<open>2\<^sup>5\<^sup>3\<close> is a double and is written in its decimal digits, with a minus sign when it
  is negative. Every other number is written in the shortest digits that read back as
  the same double: that text stays with \<open>num_string\<close>.
\<close>

fun digits :: "nat \<Rightarrow> string" where
  "digits n =
     (if n < 10 then [''0123456789'' ! n]
      else digits (n div 10) @ [''0123456789'' ! (n mod 10)])"

declare digits.simps [simp del]

definition number_to_string :: "env \<Rightarrow> rat \<Rightarrow> string" where
  "number_to_string e r =
     (case quotient_of r of (n, d) \<Rightarrow>
        if d = 1 \<and> \<bar>n\<bar> \<le> 2 ^ 53
        then (if n < 0 then ''-'' @ digits (nat (- n)) else digits (nat n))
        else num_string e r)"





fun join :: "string \<Rightarrow> string list \<Rightarrow> string" where
  "join sep [] = []"
| "join sep [x] = x"
| "join sep (x # y # ys) = x @ sep @ join sep (y # ys)"

fun is_number :: "jsval \<Rightarrow> bool" where
  "is_number (JNum r) = True"
| "is_number v = False"

fun number_of :: "jsval \<Rightarrow> rat" where
  "number_of (JNum r) = r"
| "number_of v = 0"

text \<open>
  Modelled from the spec: \<^verbatim>\<open>turf.centroid\<close> is the package \<^verbatim>\<open>turf-centroid\<close>, which is
  not among the sources. The spec's \<^verbatim>\<open>centroidOf(geometry)\<close> is, for a Point, the point
  itself, and none when the geometry is empty or unsupported. The mean of the vertices
  of the other geometries is floating-point arithmetic and stays with \<open>centroid_other\<close>.
\<close>

definition centroidOf :: "env \<Rightarrow> jsval \<Rightarrow> rat list option" where
  "centroidOf e g =
     (case (member g ''type'', member g ''coordinates'') of
        (JStr t, JArr cs) \<Rightarrow>
          if t = ''Point'' \<and> cs \<noteq> [] \<and> list_all is_number cs
          then Some (map number_of cs)
          else centroid_other e g
      | _ \<Rightarrow> centroid_other e g)"

text \<open>
  The object \<^verbatim>\<open>row\<close> of \<^verbatim>\<open>app.post('/items/:uuid')\<close> when the statement is run.
  \<open>r_data\<close> and \<open>r_geometry\<close> stand for the texts of \<^verbatim>\<open>JSON.stringify\<close>, \<open>r_client\<close>
  for \<^verbatim>\<open>JSON.stringify({ ip: ip })\<close>; \<open>None\<close> is \<^verbatim>\<open>null\<close>.
\<close>

record row =
  r_uuid :: string
  r_session :: string
  r_step :: jsval
  r_step_index :: jsval
  r_image_id :: "string option"
  r_completed :: bool
  r_data :: "jsval option"
  r_client :: "string option"
  r_geometry :: "jsval option"
  r_centroid :: "string option"

datatype message = Msg string | Msgs "string list"

text \<open>
  What the client is answered: \<^verbatim>\<open>{ result: 'success' }\<close>, a status with
  \<^verbatim>\<open>{ result: 'error', message: ... }\<close>, or the answer of Express to a handler that threw.
\<close>

datatype reply = Success | Error nat message | Thrown

definition hint_message :: "string list \<Rightarrow> message" where
  \<comment> \<open>\<^verbatim>\<open>geojsonErrors.length === 1 ? geojsonErrors[0] : geojsonErrors\<close>\<close>
  "hint_message errs = (case errs of [m] \<Rightarrow> Msg m | _ \<Rightarrow> Msgs errs)"

definition client_ip :: "request \<Rightarrow> string option" where
  \<comment> \<open>\<^verbatim>\<open>req.headers['x-forwarded-for'] || req.connection.remoteAddress\<close>\<close>
  "client_ip req =
     (case x_forwarded_for req of
        Some a \<Rightarrow> if a \<noteq> [] then Some a else remoteAddress req
      | None \<Rightarrow> remoteAddress req)"

definition row_centroid :: "env \<Rightarrow> jsval \<Rightarrow> string option" where
  \<comment> \<open>\<^verbatim>\<open>if (centroid) row.centroid = centroid.geometry.coordinates.join(',')\<close>\<close>
  "row_centroid e g =
     (case centroidOf e g of
        None \<Rightarrow> None
      | Some cs \<Rightarrow> Some (join '','' (map (number_to_string e) cs)))"

text \<open>
  The handler from \<^verbatim>\<open>var feature = req.body\<close> to \<^verbatim>\<open>row.client = ...\<close>: the answer that
  ends it early, or the finished \<^verbatim>\<open>row\<close>. The test of the branch for a step that is not
  completed is the source's \<^verbatim>\<open>feature.properties.data || feature.properties.data\<close>.
\<close>

definition build_row :: "env \<Rightarrow> item \<Rightarrow> string \<Rightarrow> request \<Rightarrow> reply + row" where
  "build_row e it sess req =
     (let feature = body req; props = member feature ''properties'' in
      if nullish feature \<or> nullish props then Inl Thrown
      else if \<not> (truthy (member props ''step'') \<and> ge0 e (member props ''stepIndex''))
      then Inl (Error 406 (Msg ''Feature should contain step and stepIndex''))
      else if truthy (member props ''completed'') \<and> \<not> truthy (member props ''data'')
      then Inl (Error 406 (Msg ''Completed steps should contain data''))
      else if \<not> truthy (member props ''completed'') \<and>
              (truthy (member props ''data'') \<or> truthy (member props ''data''))
      then Inl (Error 406 (Msg ''Only completed steps should contain data or geometry''))
      else if truthy (member feature ''geometry'') \<and> hint e feature \<noteq> []
      then Inl (Error 406 (hint_message (hint e feature)))
      else Inr
        \<lparr>r_uuid = param_uuid req,
         r_session = sess,
         r_step = member props ''step'',
         r_step_index = member props ''stepIndex'',
         r_image_id = imageID it,
         r_completed = truthy (member props ''completed''),
         r_data = (if truthy (member props ''completed'')
                   then Some (member props ''data'') else None),
         r_client = client_ip req,
         r_geometry = (if truthy (member feature ''geometry'')
                       then Some (member feature ''geometry'') else None),
         r_centroid = (if truthy (member feature ''geometry'')
                       then row_centroid e (member feature ''geometry'') else None)\<rparr>)"

text \<open>
  The parameters of the statement as the table takes them: \<^verbatim>\<open>step\<close> in a text column,
  \<^verbatim>\<open>step_index\<close> in an integer column, which the database may refuse. The proposed row
  has the defaults of both timestamps.
\<close>

definition to_location :: "env \<Rightarrow> nat \<Rightarrow> row \<Rightarrow> string + location" where
  "to_location e now r =
     (case pg_int e (r_step_index r) of
        Inl err \<Rightarrow> Inl err
      | Inr i \<Rightarrow> Inr
          \<lparr>uuid = r_uuid r, session = r_session r, step = pg_text e (r_step r),
           step_index = i, completed = r_completed r, image_id = r_image_id r,
           date_created = now, date_modified = now, data = r_data r,
           client = r_client r, geometry = r_geometry r, centroid = r_centroid r\<rparr>)"

definition executeQuery :: "env \<Rightarrow> string option \<Rightarrow> nat \<Rightarrow> row \<Rightarrow> locations \<Rightarrow> string + locations" where
  \<comment> \<open>\<^verbatim>\<open>executeQuery(query, R.values(row), callback)\<close>: \<open>fault\<close> is the error of
      \<^verbatim>\<open>pg.connect\<close> or of the server when the database fails on its own, \<open>None\<close>
      when it answers.\<close>
  "executeQuery e fault now r db =
     (case fault of
        Some err \<Rightarrow> Inl err
      | None \<Rightarrow>
          (case to_location e now r of
             Inl err \<Rightarrow> Inl err
           | Inr x \<Rightarrow> Inr (upsert now x db)))"

text \<open>The message of \<^verbatim>\<open>emitEvent\<close>, before \<^verbatim>\<open>JSON.stringify\<close>.\<close>

record feature =
  f_uuid :: string
  f_imageId :: "string option"
  f_step :: jsval
  f_completed :: bool
  f_url :: string
  f_data :: jsval
  f_geometry :: jsval

definition locationToFeature :: "row \<Rightarrow> jsval \<Rightarrow> jsval \<Rightarrow> feature" where
  \<comment> \<open>on \<^verbatim>\<open>Object.assign(row, { data: feature.properties.data, geometry: feature.geometry })\<close>:
      \<open>d\<close> and \<open>g\<close> are the two values assigned\<close>
  "locationToFeature r d g =
     \<lparr>f_uuid = r_uuid r, f_imageId = r_image_id r, f_step = r_step r,
      f_completed = r_completed r,
      f_url = ''http://digitalcollections.nypl.org/items/'' @ r_uuid r,
      f_data = d, f_geometry = g\<rparr>"

text \<open>
  The outcome of a request: the answer, the table afterwards and the messages handed to
  \<^verbatim>\<open>wss.broadcast\<close>.
\<close>

record outcome =
  reply :: reply
  table :: locations
  broadcast :: "feature list"

definition rejected :: "reply \<Rightarrow> locations \<Rightarrow> outcome" where
  "rejected r db = \<lparr>reply = r, table = db, broadcast = []\<rparr>"

definition post_item :: "env \<Rightarrow> items \<Rightarrow> string option \<Rightarrow> nat \<Rightarrow> request \<Rightarrow> locations \<Rightarrow> outcome" where
  \<comment> \<open>\<^verbatim>\<open>app.post('/items/:uuid', checkToken, ...)\<close>\<close>
  "post_item e its fault now req db =
     (case checkToken e req of
        None \<Rightarrow> rejected (Error 401 (Msg ''Not authorized'')) db
      | Some sess \<Rightarrow>
          (case (if param_uuid req \<noteq> [] then its (param_uuid req) else None) of
             None \<Rightarrow> rejected (Error 404 (Msg ''Not found'')) db
           | Some it \<Rightarrow>
               (case build_row e it sess req of
                  Inl r \<Rightarrow> rejected r db
                | Inr r \<Rightarrow>
                    (case executeQuery e fault now r db of
                       Inl err \<Rightarrow> rejected (Error 500 (Msg err)) db
                     | Inr db' \<Rightarrow>
                         \<lparr>reply = Success, table = db',
                          broadcast =
                            [locationToFeature r
                               (member (member (body req) ''properties'') ''data'')
                               (member (body req) ''geometry'')]\<rparr>))))"

section \<open>A small installation, for the concrete runs\<close>

definition example_env :: env where
  "example_env =
     \<lparr>verify = (\<lambda>t. if t = ''token-s1'' then Some ''s1'' else None),
      sign = (\<lambda>s. ''token-'' @ s),
      hint = (\<lambda>f. if member f ''type'' \<noteq> JStr ''Feature''
                   then [''The type property is required and was not found'']
                   else if member (member f ''geometry'') ''type'' = JStr ''Point'' \<and>
                           (case member (member f ''geometry'') ''coordinates'' of
                              JArr cs \<Rightarrow> 2 \<le> length cs \<and> list_all is_number cs
                            | _ \<Rightarrow> False)
                   then []
                   else [''The type member is not a GeoJSON type'',
                         ''The coordinates member is required'']),
      to_number = (\<lambda>v. None),
      num_string = (\<lambda>r. ''NaN''),
      centroid_other = (\<lambda>g. None),
      pg_text = (\<lambda>v. case v of JStr s \<Rightarrow> s | _ \<Rightarrow> []),
      pg_int = (\<lambda>v. case v of
                  JNum r \<Rightarrow> (case quotient_of r of (n, d) \<Rightarrow>
                    if d = 1 then Inr n else Inl ''invalid input syntax for integer'')
                | _ \<Rightarrow> Inl ''invalid input syntax for integer'')\<rparr>"

definition example_items :: items where
  "example_items =
     (\<lambda>u. if u = ''abc-123''
          then Some \<lparr>item_uuid = ''abc-123'', imageID = Some ''img-1''\<rparr> else None)"

definition submission :: "jsval \<Rightarrow> request" where
  \<comment> \<open>a POST to \<^verbatim>\<open>/items/abc-123\<close> with the credential of session \<^verbatim>\<open>s1\<close>\<close>
  "submission b =
     \<lparr>param_uuid = ''abc-123'', authorization = Some ''token-s1'', body = b,
      x_forwarded_for = None, remoteAddress = Some ''10.0.0.1''\<rparr>"

definition point_1_2 :: jsval where
  "point_1_2 = JObj [(''type'', JStr ''Point''), (''coordinates'', JArr [JNum 1, JNum 2])]"


definition step_body :: "rat \<Rightarrow> bool \<Rightarrow> jsval \<Rightarrow> jsval \<Rightarrow> jsval" where
  \<comment> \<open>\<^verbatim>\<open>{ type: "Feature", properties: { step: "locate", stepIndex, completed, data },
      geometry }\<close>; \<open>JUndefined\<close> for a member that is left out\<close>
  "step_body i c d g =
     JObj [(''type'', JStr ''Feature''),
           (''properties'',
              JObj [(''step'', JStr ''locate''), (''stepIndex'', JNum i),
                    (''completed'', JBool c), (''data'', d)]),
           (''geometry'', g)]"

definition stored :: "string \<Rightarrow> string \<Rightarrow> int \<Rightarrow> bool \<Rightarrow> nat \<Rightarrow> location" where
  \<comment> \<open>a row of item \<^verbatim>\<open>abc-123\<close>: session, step, step index, completed, time of writing\<close>
  "stored sess st i c t =
     \<lparr>uuid = ''abc-123'', session = sess, step = st, step_index = i, completed = c,
      image_id = Some ''img-1'', date_created = t, date_modified = t,
      data = (if c then Some (JObj [(''note'', JStr ''here'')]) else None),
      client = Some ''10.0.0.1'', geometry = None, centroid = None\<rparr>"

definition progress_row :: row where
  \<comment> \<open>\<^verbatim>\<open>row\<close> of a submission of step \<^verbatim>\<open>locate\<close>, index 1, not completed\<close>
  "progress_row =
     \<lparr>r_uuid = ''abc-123'', r_session = ''s1'', r_step = JStr ''locate'',
      r_step_index = JNum 1, r_image_id = Some ''img-1'', r_completed = False,
      r_data = None, r_client = Some ''10.0.0.9'', r_geometry = None, r_centroid = None\<rparr>"

definition four_rows :: locations where
  "four_rows =
     [stored ''s1'' ''locate'' 0 True 3, stored ''s1'' ''describe'' 1 True 5,
      stored ''s2'' ''locate'' 0 True 4, stored ''s1'' ''finish'' 2 False 6]"

definition read_request :: "string option \<Rightarrow> request" where
  \<comment> \<open>a GET of \<^verbatim>\<open>/items/abc-123\<close> with the given \<^verbatim>\<open>Authorization\<close> header\<close>
  "read_request h =
     \<lparr>param_uuid = ''abc-123'', authorization = h, body = JObj [],
      x_forwarded_for = None, remoteAddress = Some ''10.0.0.1''\<rparr>"

fun messages_of :: "message \<Rightarrow> string list" where
  "messages_of (Msg m) = [m]"
| "messages_of (Msgs ms) = ms"

section \<open>The conditional upsert\<close>

lemma upsert_not_completed:
  "lookup_row db (pkey x) = Some old \<Longrightarrow> \<not> completed x \<Longrightarrow> upsert now x db = db"
  by (induction db) (auto simp: lookup_row_def split: if_splits)

text \<open>
  C1. Claimed: once the row of a triple is completed, every later commit for the triple
  leaves all its fields as they are. The statement updates an existing row whenever the
  proposed row is completed, whatever the existing row's flag is. Two completed
  submissions (GeoJSON Features) of step \<^verbatim>\<open>locate\<close> of item \<^verbatim>\<open>abc-123\<close> by session \<^verbatim>\<open>s1\<close>, the first at
  time 1 with data \<^verbatim>\<open>{note: "here"}\<close> and the point [1, 2], the second at time 2 with data
  \<^verbatim>\<open>{note: "there"}\<close> and no geometry: the completed row is written over.
\<close>

theorem completed_row_overwritten:
  "table (post_item example_env example_items None 1
      (submission (step_body 0 True (JObj [(''note'', JStr ''here'')]) point_1_2)) []) =
     [\<lparr>uuid = ''abc-123'', session = ''s1'', step = ''locate'', step_index = 0,
       completed = True, image_id = Some ''img-1'', date_created = 1, date_modified = 1,
       data = Some (JObj [(''note'', JStr ''here'')]), client = Some ''10.0.0.1'',
       geometry = Some point_1_2, centroid = Some ''1,2''\<rparr>] \<and>
   table (post_item example_env example_items None 2
      (submission (step_body 0 True (JObj [(''note'', JStr ''there'')]) JUndefined))
      (table (post_item example_env example_items None 1
         (submission (step_body 0 True (JObj [(''note'', JStr ''here'')]) point_1_2)) []))) =
     [\<lparr>uuid = ''abc-123'', session = ''s1'', step = ''locate'', step_index = 0,
       completed = True, image_id = Some ''img-1'', date_created = 1, date_modified = 2,
       data = Some (JObj [(''note'', JStr ''there'')]), client = Some ''10.0.0.1'',
       geometry = None, centroid = None\<rparr>]"
  by code_simp

text \<open>
  C4. Claimed: a commit that is not completed, for a triple whose row is not completed,
  refreshes the row's step index, client, geometry, centroid and time of modification.
  It does not: the row written at time 1 with step index 0 is the same after a
  submission at time 2 with step index 1.
\<close>

theorem progress_not_refreshed_counterexample:
  "reply (post_item example_env example_items None 2
      (submission (step_body 1 False JUndefined JUndefined))
      [stored ''s1'' ''locate'' 0 False 1]) = Success \<and>
   map step_index (table (post_item example_env example_items None 2
      (submission (step_body 1 False JUndefined JUndefined))
      [stored ''s1'' ''locate'' 0 False 1])) = [0] \<and>
   map date_modified (table (post_item example_env example_items None 2
      (submission (step_body 1 False JUndefined JUndefined))
      [stored ''s1'' ''locate'' 0 False 1])) = [1]"
  by code_simp

text \<open>
  C4, as amended: when the triple has a row and the submitted step is not completed, the
  statement succeeds (unless the database fails) and leaves the whole table, and so the
  row, as it was: \<^verbatim>\<open>WHERE EXCLUDED.completed\<close> keeps the update from running.
\<close>

theorem progress_resubmission_unchanged:
  assumes "to_location e now r = Inr x"
    and "lookup_row db (pkey x) = Some old"
    and "\<not> r_completed r"
  shows "executeQuery e None now r db = Inr db"
proof -
  from assms(1,3) have "\<not> completed x"
    by (auto simp: to_location_def split: sum.splits)
  with assms(2) have "upsert now x db = db"
    by (rule upsert_not_completed)
  with assms(1) show ?thesis
    by (simp add: executeQuery_def)
qed

theorem progress_resubmission_unchanged_witness:
  "executeQuery example_env None 2 progress_row [stored ''s1'' ''locate'' 0 False 1] =
     Inr [stored ''s1'' ''locate'' 0 False 1]"
proof -
  have a: "to_location example_env 2 progress_row =
      Inr ((stored ''s1'' ''locate'' 1 False 2)\<lparr>client := Some ''10.0.0.9''\<rparr>)"
    by code_simp
  have b: "lookup_row [stored ''s1'' ''locate'' 0 False 1]
      (pkey ((stored ''s1'' ''locate'' 1 False 2)\<lparr>client := Some ''10.0.0.9''\<rparr>)) =
      Some (stored ''s1'' ''locate'' 0 False 1)"
    by code_simp
  have c: "\<not> r_completed progress_row"
    by (simp add: progress_row_def)
  show ?thesis
    by (rule progress_resubmission_unchanged [OF a b c])
qed

section \<open>The latest step of each session\<close>

lemma max_step_Max:
  assumes "max_step db g = Some m"
  shows "m = Max (step_index ` {r \<in> set db. completed r \<and> (uuid r, session r) = g})"
proof -
  let ?xs = "map step_index (filter (\<lambda>r. completed r \<and> (uuid r, session r) = g) db)"
  from assms obtain i "is" where xs: "?xs = i # is" and m: "m = fold max is i"
    by (auto simp: max_step_def split: list.splits)
  have "m = Max (set (i # is))" using m Max.set_eq_fold[of i "is"] by simp
  also have "set (i # is) = set ?xs" using xs by simp
  also have "set ?xs = step_index ` {r \<in> set db. completed r \<and> (uuid r, session r) = g}"
    by auto
  finally show ?thesis .
qed

lemma max_step_attained:
  assumes "max_step db g = Some m"
  shows "\<exists>r\<in>set db. completed r \<and> (uuid r, session r) = g \<and> step_index r = m"
proof -
  let ?S = "step_index ` {r \<in> set db. completed r \<and> (uuid r, session r) = g}"
  let ?xs = "map step_index (filter (\<lambda>r. completed r \<and> (uuid r, session r) = g) db)"
  from assms have "?xs \<noteq> []" by (auto simp: max_step_def split: list.splits)
  then have ne: "?S \<noteq> {}" by (auto simp: filter_empty_conv)
  have "finite ?S" by simp
  from Max_in[OF this ne] max_step_Max[OF assms] have "m \<in> ?S" by simp
  then show ?thesis by auto
qed

lemma subquery_s_member:
  "(g, m) \<in> set (subquery_s db) \<Longrightarrow> max_step db g = Some m"
  by (auto simp: subquery_s_def split: option.splits)

lemma joined_member:
  "l \<in> set (joined db) \<Longrightarrow> l \<in> set db \<and> max_step db (uuid l, session l) = Some (step_index l)"
  by (auto simp: joined_def dest: subquery_s_member)

lemma set_locationsQuery: "set (locationsQuery db) = set (joined db)"
  by (simp add: locationsQuery_def)

lemma locationsQuery_sorted: "sorted_wrt (\<ge>) (map date_modified (locationsQuery db))"
proof -
  have "sorted (map date_modified (sort_key date_modified (joined db)))" by simp
  then have "sorted_wrt (\<ge>) (rev (map date_modified (sort_key date_modified (joined db))))"
    by (simp only: sorted_wrt_rev) 
  then show ?thesis by (simp add: locationsQuery_def rev_map)
qed


lemma filter_at_most_one:
  "distinct (map k xs) \<Longrightarrow> (\<And>x. x \<in> set xs \<Longrightarrow> P x \<Longrightarrow> k x = c) \<Longrightarrow> length (filter P xs) \<le> 1"
proof (induction xs)
  case Nil
  then show ?case by simp
next
  case (Cons x xs)
  show ?case
  proof (cases "P x")
    case True
    then have kx: "k x = c" using Cons.prems(2) by simp
    have "filter P xs = []"
    proof (rule ccontr)
      assume "filter P xs \<noteq> []"
      then obtain y where y: "y \<in> set xs" "P y" by (auto simp: filter_empty_conv)
      then have "k y = c" using Cons.prems(2) by simp
      with kx have "k x = k y" by simp
      moreover have "k x \<notin> k ` set xs" using Cons.prems(1) by simp
      ultimately show False using y(1) by (metis imageI)
    qed
    with True show ?thesis by simp
  next
    case False
    then show ?thesis using Cons by simp
  qed
qed

lemma distinct_concat_groups:
  "distinct (map fst gs) \<Longrightarrow>
   (\<And>gm. gm \<in> set gs \<Longrightarrow> length (F gm) \<le> 1 \<and> (\<forall>l\<in>set (F gm). p l = fst gm)) \<Longrightarrow>
   distinct (map p (concat (map F gs)))"
proof (induction gs)
  case Nil
  then show ?case by simp
next
  case (Cons gm gs)
  have one: "length (F gm) \<le> 1" and here: "\<forall>l\<in>set (F gm). p l = fst gm"
    using Cons.prems(2)[of gm] by simp_all
  have d1: "distinct (map p (F gm))"
    using one by (cases "F gm") auto
  have d2: "distinct (map p (concat (map F gs)))"
    using Cons by simp
  have disj: "p ` set (F gm) \<inter> p ` set (concat (map F gs)) = {}"
  proof (rule ccontr)
    assume "p ` set (F gm) \<inter> p ` set (concat (map F gs)) \<noteq> {}"
    then obtain l l' gm' where "l \<in> set (F gm)" "gm' \<in> set gs" "l' \<in> set (F gm')" "p l = p l'"
      by auto
    moreover from this have "p l' = fst gm'" using Cons.prems(2)[of gm'] by simp
    ultimately have "fst gm \<in> fst ` set gs" using here by force
    then show False using Cons.prems(1) by simp
  qed
  show ?case using d1 d2 disj by simp
qed

lemma distinct_fst_subquery_s: "distinct (map fst (subquery_s db))"
proof -
  have *: "map fst (concat (map (\<lambda>g. case max_step db g of None \<Rightarrow> [] | Some m \<Rightarrow> [(g, m)]) gs))
        = filter (\<lambda>g. max_step db g \<noteq> None) gs" for gs
    by (induction gs) (auto split: option.splits)
  show ?thesis unfolding subquery_s_def * by simp
qed

lemma joined_one_per_pair:
  assumes "distinct (map (\<lambda>r. (uuid r, session r, step_index r)) db)"
  shows "distinct (map (\<lambda>l. (uuid l, session l)) (joined db))"
  unfolding joined_def
proof (rule distinct_concat_groups[OF distinct_fst_subquery_s])
  fix gm assume "gm \<in> set (subquery_s db)"
  obtain g m where gm: "gm = (g, m)" by (cases gm)
  have "length (filter (\<lambda>l. step_index l = m \<and> g = (uuid l, session l)) db) \<le> 1"
    by (rule filter_at_most_one[OF assms, where c = "(fst g, snd g, m)"]) auto
  then show "length ((\<lambda>(g, m). filter (\<lambda>l. step_index l = m \<and> g = (uuid l, session l)) db) gm) \<le> 1 \<and>
     (\<forall>l\<in>set ((\<lambda>(g, m). filter (\<lambda>l. step_index l = m \<and> g = (uuid l, session l)) db) gm).
        (uuid l, session l) = fst gm)"
    by (auto simp: gm)
qed

lemma locationsQuery_one_per_pair:
  assumes "distinct (map (\<lambda>r. (uuid r, session r, step_index r)) db)"
  shows "distinct (map (\<lambda>l. (uuid l, session l)) (locationsQuery db))"
  using joined_one_per_pair[OF assms]
  by (simp add: locationsQuery_def distinct_map)

lemma joined_completed:
  assumes "distinct (map (\<lambda>r. (uuid r, session r, step_index r)) db)" "l \<in> set (joined db)"
  shows "completed l"
proof -
  from joined_member[OF assms(2)] have l: "l \<in> set db"
    and m: "max_step db (uuid l, session l) = Some (step_index l)" by simp_all
  from max_step_attained[OF m] obtain r where r: "r \<in> set db" "completed r"
    "(uuid r, session r) = (uuid l, session l)" "step_index r = step_index l" by auto
  from assms(1) have "inj_on (\<lambda>r. (uuid r, session r, step_index r)) (set db)"
    by (simp add: distinct_map)
  with r l have "r = l" by (auto dest!: inj_onD)
  with r(2) show ?thesis by simp
qed

text \<open>
  C5. Claimed: at most one record for each session, every record a completed row with
  the greatest step index of its session's completed rows, in descending order of
  modification. Session \<^verbatim>\<open>s1\<close> completed step \<^verbatim>\<open>locate\<close> with index 1 and then sent
  step \<^verbatim>\<open>describe\<close>, not completed, with index 1 too: the query answers both rows, two
  records for one session, the first of them not completed.
\<close>

theorem latest_two_records_counterexample:
  "map session (locationsQuery
      [stored ''s1'' ''locate'' 1 True 1, stored ''s1'' ''describe'' 1 False 2]) =
     [''s1'', ''s1''] \<and>
   map completed (locationsQuery
      [stored ''s1'' ''locate'' 1 True 1, stored ''s1'' ''describe'' 1 False 2]) =
     [False, True]"
  by code_simp

text \<open>
  C5, as amended: the records are in descending order of modification; every record is a
  row of the table whose step index is the greatest among the completed rows of its
  item and session; and when no two rows of the table agree on item, session and step
  index, there is at most one record for each pair of item and session, and every
  record is completed.
\<close>

theorem locationsQuery_latest_per_pair:
  "sorted_wrt (\<ge>) (map date_modified (locationsQuery db)) \<and>
   (\<forall>l\<in>set (locationsQuery db). l \<in> set db \<and>
      step_index l = Max (step_index ` {r \<in> set db. completed r \<and> uuid r = uuid l \<and> session r = session l})) \<and>
   (distinct (map (\<lambda>r. (uuid r, session r, step_index r)) db) \<longrightarrow>
      distinct (map (\<lambda>l. (uuid l, session l)) (locationsQuery db)) \<and>
      (\<forall>l\<in>set (locationsQuery db). completed l))"
proof (intro conjI ballI impI)
  show "sorted_wrt (\<ge>) (map date_modified (locationsQuery db))"
    by (rule locationsQuery_sorted)
next
  fix l assume "l \<in> set (locationsQuery db)"
  then show "l \<in> set db" using joined_member by (simp add: set_locationsQuery)
next
  fix l assume "l \<in> set (locationsQuery db)"
  then have "max_step db (uuid l, session l) = Some (step_index l)"
    using joined_member by (simp add: set_locationsQuery)
  from max_step_Max[OF this]
  show "step_index l = Max (step_index ` {r \<in> set db. completed r \<and> uuid r = uuid l \<and> session r = session l})"
    by simp
next
  assume "distinct (map (\<lambda>r. (uuid r, session r, step_index r)) db)"
  then show "distinct (map (\<lambda>l. (uuid l, session l)) (locationsQuery db))"
    by (rule locationsQuery_one_per_pair)
next
  fix l
  assume "distinct (map (\<lambda>r. (uuid r, session r, step_index r)) db)" "l \<in> set (locationsQuery db)"
  then show "completed l" using joined_completed by (simp add: set_locationsQuery)
qed

theorem locationsQuery_latest_per_pair_witness:
  "distinct (map (\<lambda>r. (uuid r, session r, step_index r)) four_rows) \<and>
   distinct (map (\<lambda>l. (uuid l, session l)) (locationsQuery four_rows)) \<and>
   list_all completed (locationsQuery four_rows) \<and>
   sorted_wrt (\<ge>) (map date_modified (locationsQuery four_rows))"
proof -
  have h: "distinct (map (\<lambda>r. (uuid r, session r, step_index r)) four_rows)"
    by code_simp
  from locationsQuery_latest_per_pair [of four_rows] h show ?thesis
    by (simp only: list_all_iff) blast
qed

section \<open>The submission handler\<close>

lemma build_row_not_Success: "build_row e it sess req = Inl r \<Longrightarrow> r \<noteq> Success"
  by (auto simp: build_row_def Let_def split: if_splits)

lemma post_item_cases:
  "post_item e its fault now req db = rejected (Error 401 (Msg ''Not authorized'')) db \<or>
   post_item e its fault now req db = rejected (Error 404 (Msg ''Not found'')) db \<or>
   (\<exists>r. r \<noteq> Success \<and> post_item e its fault now req db = rejected r db) \<or>
   (\<exists>r db' sess it. checkToken e req = Some sess \<and> its (param_uuid req) = Some it \<and> param_uuid req \<noteq> [] \<and>
       build_row e it sess req = Inr r \<and> executeQuery e fault now r db = Inr db' \<and>
       post_item e its fault now req db =
        \<lparr>reply = Success, table = db',
          broadcast = [locationToFeature r (member (member (body req) ''properties'') ''data'')
                               (member (body req) ''geometry'')]\<rparr>)"
  by (auto simp: post_item_def split: option.splits sum.splits if_splits dest: build_row_not_Success)

text \<open>
  C2. Claimed: a submission that is committed is broadcast only if it is completed.
  \<^verbatim>\<open>emitEvent\<close> is called in the callback of every statement that did not fail; it
  does not look at \<^verbatim>\<open>row.completed\<close>. A first submission of step \<^verbatim>\<open>locate\<close> that is
  not completed is answered with success and broadcast, with \<^verbatim>\<open>completed: false\<close>.
\<close>

theorem progress_broadcast_counterexample:
  "reply (post_item example_env example_items None 1
      (submission (step_body 0 False JUndefined JUndefined)) []) = Success \<and>
   broadcast (post_item example_env example_items None 1
      (submission (step_body 0 False JUndefined JUndefined)) []) =
     [\<lparr>f_uuid = ''abc-123'', f_imageId = Some ''img-1'', f_step = JStr ''locate'',
       f_completed = False, f_url = ''http://digitalcollections.nypl.org/items/abc-123'',
       f_data = JUndefined, f_geometry = JUndefined\<rparr>]"
  by code_simp

text \<open>
  C2, as amended: a submission is broadcast exactly when it is answered with success,
  once, and the message carries the submission's own \<^verbatim>\<open>completed\<close>, true or false; a
  submission that is rejected, or whose statement fails, is not broadcast.
\<close>

theorem broadcast_on_every_success:
  "length (broadcast (post_item e its fault now req db)) =
     (if reply (post_item e its fault now req db) = Success then 1 else 0) \<and>
   list_all (\<lambda>f. f_completed f = truthy (member (member (body req) ''properties'') ''completed''))
     (broadcast (post_item e its fault now req db))"
  using post_item_cases [of e its fault now req db]
  by (auto simp: rejected_def locationToFeature_def build_row_def Let_def split: if_splits)


theorem broadcast_on_every_success_witness:
  "reply (post_item example_env example_items None 1
      (submission (step_body 0 False JUndefined JUndefined)) []) = Success \<and>
   length (broadcast (post_item example_env example_items None 1
      (submission (step_body 0 False JUndefined JUndefined)) [])) = 1"
proof -
  have "reply (post_item example_env example_items None 1
      (submission (step_body 0 False JUndefined JUndefined)) []) = Success"
    by code_simp
  with broadcast_on_every_success [of example_env example_items None 1
      "submission (step_body 0 False JUndefined JUndefined)" "[]"]
  show ?thesis by simp
qed

text \<open>
  C3. Claimed: a submission that is not completed and carries a geometry is rejected, and
  no row has a geometry while it is not completed. The branch answers 406 with
  \<^verbatim>\<open>Only completed steps should contain data or geometry\<close>, but its test reads
  \<^verbatim>\<open>feature.properties.data\<close> twice and never \<^verbatim>\<open>feature.geometry\<close>: a submission, a
  well-formed GeoJSON Feature, that is not completed, without data and with the point
  [1, 2], is accepted and its row is written with the geometry and the centroid.
\<close>

theorem geometry_stored_without_completion:
  "post_item example_env example_items None 1
      (submission (step_body 0 False JUndefined point_1_2)) [] =
     \<lparr>reply = Success,
      table = [\<lparr>uuid = ''abc-123'', session = ''s1'', step = ''locate'', step_index = 0,
        completed = False, image_id = Some ''img-1'', date_created = 1, date_modified = 1,
        data = None, client = Some ''10.0.0.1'',
        geometry = Some point_1_2, centroid = Some ''1,2''\<rparr>],
      broadcast = [\<lparr>f_uuid = ''abc-123'', f_imageId = Some ''img-1'', f_step = JStr ''locate'',
        f_completed = False, f_url = ''http://digitalcollections.nypl.org/items/abc-123'',
        f_data = JUndefined, f_geometry = point_1_2\<rparr>]\<rparr>"
  by code_simp

text \<open>
  C6. Claimed: a \<^verbatim>\<open>stepIndex\<close> that is not a non-negative integer, 0.5 for one, is
  rejected with the validation error 406. The handler tests \<^verbatim>\<open>stepIndex >= 0\<close> and
  nothing else: 0.5 passes, the row goes to the database, and here the integer column
  refuses it, which is answered with 500.
\<close>

theorem fractional_stepIndex_counterexample:
  "reply (post_item example_env example_items None 1
      (submission (step_body (1 / 2) False JUndefined JUndefined)) []) =
     Error 500 (Msg ''invalid input syntax for integer'')"
  by code_simp

text \<open>
  C6, as amended: for a request with a valid credential, a known item and a body with
  \<^verbatim>\<open>properties\<close>, the handler answers 406 \<^verbatim>\<open>Feature should contain step and stepIndex\<close>,
  writes no row and broadcasts nothing, when \<^verbatim>\<open>properties.step\<close> reads as false
  (absent, null, false, 0, the empty string) or \<^verbatim>\<open>properties.stepIndex >= 0\<close> does not
  hold (absent, a negative number, a value that converts to NaN). A \<^verbatim>\<open>stepIndex\<close> that
  is a number not below zero, an integer or not, passes: with a \<^verbatim>\<open>step\<close>, consistent
  \<^verbatim>\<open>completed\<close> and \<^verbatim>\<open>data\<close> and no geometry, the row goes to the database with it.
\<close>

theorem step_check_rejects:
  assumes "checkToken e req = Some sess"
    and "param_uuid req \<noteq> []"
    and "its (param_uuid req) = Some it"
    and "\<not> nullish (body req)"
    and "\<not> nullish (member (body req) ''properties'')"
  shows "(\<not> truthy (member (member (body req) ''properties'') ''step'') \<or>
          \<not> ge0 e (member (member (body req) ''properties'') ''stepIndex'') \<longrightarrow>
          post_item e its fault now req db =
            \<lparr>reply = Error 406 (Msg ''Feature should contain step and stepIndex''),
             table = db, broadcast = []\<rparr>) \<and>
         (truthy (member (member (body req) ''properties'') ''step'') \<and>
          member (member (body req) ''properties'') ''stepIndex'' = JNum i \<and> 0 \<le> i \<and>
          truthy (member (member (body req) ''properties'') ''completed'') =
            truthy (member (member (body req) ''properties'') ''data'') \<and>
          \<not> truthy (member (body req) ''geometry'') \<longrightarrow>
          (\<exists>r. build_row e it sess req = Inr r \<and> r_step_index r = JNum i))"
  using assms by (auto simp: post_item_def build_row_def rejected_def Let_def)

theorem step_check_rejects_witness:
  "post_item example_env example_items None 1
      (submission (step_body (- 1) False JUndefined JUndefined)) [] =
     \<lparr>reply = Error 406 (Msg ''Feature should contain step and stepIndex''),
      table = [], broadcast = []\<rparr> \<and>
   (\<exists>r. build_row example_env \<lparr>item_uuid = ''abc-123'', imageID = Some ''img-1''\<rparr> ''s1''
          (submission (step_body (1 / 2) False JUndefined JUndefined)) = Inr r \<and>
        r_step_index r = JNum (1 / 2))"
proof -
  let ?neg = "submission (step_body (- 1) False JUndefined JUndefined)"
  let ?half = "submission (step_body (1 / 2) False JUndefined JUndefined)"
  have a: "checkToken example_env ?neg = Some ''s1''" "checkToken example_env ?half = Some ''s1''"
    by (simp_all add: submission_def example_env_def checkToken_def no_authorization_def)
  have b: "param_uuid ?neg \<noteq> []" "param_uuid ?half \<noteq> []"
    by (simp_all add: submission_def)
  have c: "example_items (param_uuid ?neg) =
      Some \<lparr>item_uuid = ''abc-123'', imageID = Some ''img-1''\<rparr>"
    "example_items (param_uuid ?half) =
      Some \<lparr>item_uuid = ''abc-123'', imageID = Some ''img-1''\<rparr>"
    by (simp_all add: submission_def example_items_def)
  have d: "\<not> nullish (body ?neg)" "\<not> nullish (body ?half)"
    by (simp_all add: submission_def step_body_def)
  have f: "\<not> nullish (member (body ?neg) ''properties'')"
    "\<not> nullish (member (body ?half) ''properties'')"
    by (simp_all add: submission_def step_body_def)
  have g: "\<not> truthy (member (member (body ?neg) ''properties'') ''step'') \<or>
         \<not> ge0 example_env (member (member (body ?neg) ''properties'') ''stepIndex'')"
    by (simp add: submission_def step_body_def)
  have h: "truthy (member (member (body ?half) ''properties'') ''step'') \<and>
          member (member (body ?half) ''properties'') ''stepIndex'' = JNum (1 / 2) \<and>
          (0::rat) \<le> 1 / 2 \<and>
          truthy (member (member (body ?half) ''properties'') ''completed'') =
            truthy (member (member (body ?half) ''properties'') ''data'') \<and>
          \<not> truthy (member (body ?half) ''geometry'')"
    by (simp add: submission_def step_body_def)
  from step_check_rejects [where its = example_items and fault = None and now = 1 and db = "[]",
      OF a(1) b(1) c(1) d(1) f(1)] g
  have one: "post_item example_env example_items None 1 ?neg [] =
     \<lparr>reply = Error 406 (Msg ''Feature should contain step and stepIndex''),
      table = [], broadcast = []\<rparr>"
    by blast
  from step_check_rejects [where its = example_items and i = "1 / 2",
      OF a(2) b(2) c(2) d(2) f(2)] h
  have two: "\<exists>r. build_row example_env \<lparr>item_uuid = ''abc-123'', imageID = Some ''img-1''\<rparr> ''s1''
          ?half = Inr r \<and> r_step_index r = JNum (1 / 2)"
    by blast
  from one two show ?thesis by blast
qed

lemma messages_of_hint_message: "messages_of (hint_message errs) = errs"
  by (cases errs rule: list.exhaust; cases "tl errs") (auto simp: hint_message_def split: list.splits)

lemma build_row_invalid_geometry:
  assumes "truthy (member (body req) ''geometry'')" and "hint e (body req) \<noteq> []"
  shows "\<exists>r. build_row e it sess req = Inl r \<and> r \<noteq> Success"
  using assms by (auto simp: build_row_def Let_def)

text \<open>
  C7. A submission whose \<^verbatim>\<open>feature.geometry\<close> is there (it reads as true, the handler's
  test) and for which \<^verbatim>\<open>geojsonhint\<close> reports a message is rejected: the table is as it
  was, nothing is broadcast and the answer is not success, whatever else the request
  holds. When the request comes as far as the geometry (valid credential, known item,
  \<^verbatim>\<open>step\<close> and \<^verbatim>\<open>stepIndex\<close> accepted, \<^verbatim>\<open>completed\<close> and \<^verbatim>\<open>data\<close> consistent), the
  answer is 406 and its message holds every message of the validation.
\<close>

theorem invalid_geometry_rejected:
  assumes "truthy (member (body req) ''geometry'')" and "hint e (body req) \<noteq> []"
  shows "table (post_item e its fault now req db) = db \<and>
     broadcast (post_item e its fault now req db) = [] \<and>
     reply (post_item e its fault now req db) \<noteq> Success \<and>
     (checkToken e req = Some sess \<and> param_uuid req \<noteq> [] \<and> its (param_uuid req) = Some it \<and>
      \<not> nullish (member (body req) ''properties'') \<and>
      truthy (member (member (body req) ''properties'') ''step'') \<and>
      ge0 e (member (member (body req) ''properties'') ''stepIndex'') \<and>
      truthy (member (member (body req) ''properties'') ''completed'') =
        truthy (member (member (body req) ''properties'') ''data'')
      \<longrightarrow> (\<exists>m. reply (post_item e its fault now req db) = Error 406 m \<and>
             messages_of m = hint e (body req)))"
proof (intro conjI impI)
  have rej: "\<exists>r. r \<noteq> Success \<and> post_item e its fault now req db = rejected r db"
  proof (cases "checkToken e req")
    case None
    then have "post_item e its fault now req db = rejected (Error 401 (Msg ''Not authorized'')) db"
      by (simp add: post_item_def)
    then show ?thesis by blast
  next
    case tok: (Some s)
    show ?thesis
    proof (cases "if param_uuid req \<noteq> [] then its (param_uuid req) else None")
      case None
      with tok have "post_item e its fault now req db = rejected (Error 404 (Msg ''Not found'')) db"
        by (simp add: post_item_def)
      then show ?thesis by blast
    next
      case (Some i)
      from build_row_invalid_geometry [OF assms, of i s]
      obtain r where "build_row e i s req = Inl r" "r \<noteq> Success" by blast
      with tok Some have "r \<noteq> Success \<and> post_item e its fault now req db = rejected r db"
        by (simp add: post_item_def)
      then show ?thesis by blast
    qed
  qed
  then show "table (post_item e its fault now req db) = db"
    and "broadcast (post_item e its fault now req db) = []"
    and "reply (post_item e its fault now req db) \<noteq> Success"
    by (auto simp: rejected_def)
next
  assume h: "checkToken e req = Some sess \<and> param_uuid req \<noteq> [] \<and> its (param_uuid req) = Some it \<and>
      \<not> nullish (member (body req) ''properties'') \<and>
      truthy (member (member (body req) ''properties'') ''step'') \<and>
      ge0 e (member (member (body req) ''properties'') ''stepIndex'') \<and>
      truthy (member (member (body req) ''properties'') ''completed'') =
        truthy (member (member (body req) ''properties'') ''data'')"
  from assms(1) have nb: "\<not> nullish (body req)" by (cases "body req") auto
  have "build_row e it sess req = Inl (Error 406 (hint_message (hint e (body req))))"
    using h nb assms by (auto simp: build_row_def Let_def)
  with h have "reply (post_item e its fault now req db) = Error 406 (hint_message (hint e (body req)))"
    by (simp add: post_item_def rejected_def)
  then show "\<exists>m. reply (post_item e its fault now req db) = Error 406 m \<and>
             messages_of m = hint e (body req)"
    by (simp add: messages_of_hint_message)
qed

theorem invalid_geometry_rejected_witness:
  "post_item example_env example_items None 1
      (submission (step_body 0 True (JObj [(''note'', JStr ''here'')])
         (JObj [(''type'', JStr ''Circle'')]))) [] =
     \<lparr>reply = Error 406 (Msgs [''The type member is not a GeoJSON type'',
                               ''The coordinates member is required'']),
      table = [], broadcast = []\<rparr>"
proof -
  let ?req = "submission (step_body 0 True (JObj [(''note'', JStr ''here'')])
         (JObj [(''type'', JStr ''Circle'')]))"
  let ?o = "post_item example_env example_items None 1 ?req []"
  have a: "truthy (member (body ?req) ''geometry'')"
    by (simp add: submission_def step_body_def)
  have b: "hint example_env (body ?req) =
      [''The type member is not a GeoJSON type'', ''The coordinates member is required'']"
    by (simp add: submission_def step_body_def example_env_def)
  then have b': "hint example_env (body ?req) \<noteq> []" by simp
  have c: "checkToken example_env ?req = Some ''s1'' \<and> param_uuid ?req \<noteq> [] \<and>
      example_items (param_uuid ?req) = Some \<lparr>item_uuid = ''abc-123'', imageID = Some ''img-1''\<rparr> \<and>
      \<not> nullish (member (body ?req) ''properties'') \<and>
      truthy (member (member (body ?req) ''properties'') ''step'') \<and>
      ge0 example_env (member (member (body ?req) ''properties'') ''stepIndex'') \<and>
      truthy (member (member (body ?req) ''properties'') ''completed'') =
        truthy (member (member (body ?req) ''properties'') ''data'')"
    by (simp add: submission_def step_body_def example_env_def example_items_def
        checkToken_def no_authorization_def)
  from invalid_geometry_rejected [where its = example_items and fault = None and now = 1
      and db = "[]", OF a b'] c
  obtain m where m: "table ?o = []" "broadcast ?o = []" "reply ?o = Error 406 m"
      "messages_of m = hint example_env (body ?req)"
    by blast
  have "reply ?o = Error 406 (Msgs [''The type member is not a GeoJSON type'',
                               ''The coordinates member is required''])"
    by code_simp
  with m show ?thesis by (cases ?o) simp
qed

text \<open>
  C8. For a request with a valid credential for a known item: when \<^verbatim>\<open>completed\<close> reads
  as true and \<^verbatim>\<open>properties.data\<close> is absent (or reads as false), or \<^verbatim>\<open>completed\<close> reads
  as false and \<^verbatim>\<open>properties.data\<close> reads as true (every non-empty string, every object
  and array), the answer is a 406, the table is as it was and nothing is broadcast.
\<close>

theorem completed_data_pairing:
  assumes "checkToken e req = Some sess"
    and "param_uuid req \<noteq> []"
    and "its (param_uuid req) = Some it"
    and "(truthy (member (member (body req) ''properties'') ''completed'') \<and>
          \<not> truthy (member (member (body req) ''properties'') ''data'')) \<or>
         (\<not> truthy (member (member (body req) ''properties'') ''completed'') \<and>
          truthy (member (member (body req) ''properties'') ''data''))"
  shows "(\<exists>m. reply (post_item e its fault now req db) = Error 406 m) \<and>
     table (post_item e its fault now req db) = db \<and>
     broadcast (post_item e its fault now req db) = []"
proof -
  from assms(4) have "\<not> nullish (member (body req) ''properties'')"
    by (cases "member (body req) ''properties''") auto
  moreover from this have "\<not> nullish (body req)"
    by (cases "body req") auto
  ultimately have "\<exists>m. build_row e it sess req = Inl (Error 406 m)"
    using assms(4) by (auto simp: build_row_def Let_def)
  then obtain m where "build_row e it sess req = Inl (Error 406 m)" ..
  with assms(1-3) have "post_item e its fault now req db = rejected (Error 406 m) db"
    by (simp add: post_item_def)
  then show ?thesis by (simp add: rejected_def)
qed

theorem completed_data_pairing_witness:
  "post_item example_env example_items None 1
      (submission (step_body 0 True JUndefined JUndefined)) [] =
     \<lparr>reply = Error 406 (Msg ''Completed steps should contain data''),
      table = [], broadcast = []\<rparr> \<and>
   post_item example_env example_items None 1
      (submission (step_body 0 False (JObj [(''note'', JStr ''here'')]) JUndefined)) [] =
     \<lparr>reply = Error 406 (Msg ''Only completed steps should contain data or geometry''),
      table = [], broadcast = []\<rparr>"
proof -
  let ?r1 = "submission (step_body 0 True JUndefined JUndefined)"
  let ?r2 = "submission (step_body 0 False (JObj [(''note'', JStr ''here'')]) JUndefined)"
  let ?o1 = "post_item example_env example_items None 1 ?r1 []"
  let ?o2 = "post_item example_env example_items None 1 ?r2 []"
  have tok: "checkToken example_env ?r1 = Some ''s1''" "checkToken example_env ?r2 = Some ''s1''"
    by (simp_all add: submission_def example_env_def checkToken_def no_authorization_def)
  have uu: "param_uuid ?r1 \<noteq> []" "param_uuid ?r2 \<noteq> []"
    by (simp_all add: submission_def)
  have it: "example_items (param_uuid ?r1) = Some \<lparr>item_uuid = ''abc-123'', imageID = Some ''img-1''\<rparr>"
    "example_items (param_uuid ?r2) = Some \<lparr>item_uuid = ''abc-123'', imageID = Some ''img-1''\<rparr>"
    by (simp_all add: submission_def example_items_def)
  have p1: "(truthy (member (member (body ?r1) ''properties'') ''completed'') \<and>
          \<not> truthy (member (member (body ?r1) ''properties'') ''data'')) \<or>
         (\<not> truthy (member (member (body ?r1) ''properties'') ''completed'') \<and>
          truthy (member (member (body ?r1) ''properties'') ''data''))"
    by (simp add: submission_def step_body_def)
  have p2: "(truthy (member (member (body ?r2) ''properties'') ''completed'') \<and>
          \<not> truthy (member (member (body ?r2) ''properties'') ''data'')) \<or>
         (\<not> truthy (member (member (body ?r2) ''properties'') ''completed'') \<and>
          truthy (member (member (body ?r2) ''properties'') ''data''))"
    by (simp add: submission_def step_body_def)
  have a: "table ?o1 = [] \<and> broadcast ?o1 = []"
    using completed_data_pairing [where its = example_items and fault = None and now = 1
      and db = "[]", OF tok(1) uu(1) it(1) p1] by simp
  have b: "table ?o2 = [] \<and> broadcast ?o2 = []"
    using completed_data_pairing [where its = example_items and fault = None and now = 1
      and db = "[]", OF tok(2) uu(2) it(2) p2] by simp
  have c: "reply ?o1 = Error 406 (Msg ''Completed steps should contain data'')"
    by code_simp
  have d: "reply ?o2 = Error 406 (Msg ''Only completed steps should contain data or geometry'')"
    by code_simp
  from a c have "?o1 = \<lparr>reply = Error 406 (Msg ''Completed steps should contain data''),
      table = [], broadcast = []\<rparr>" by (cases ?o1) simp
  moreover from b d have "?o2 = \<lparr>reply = Error 406 (Msg ''Only completed steps should contain data or geometry''),
      table = [], broadcast = []\<rparr>" by (cases ?o2) simp
  ultimately show ?thesis by simp
qed
















section \<open>Credentials on the read endpoints\<close>

text \<open>
  C10. Claimed: on \<^verbatim>\<open>GET /items/random\<close> and \<^verbatim>\<open>GET /items/:uuid\<close> a credential that is
  presented is echoed without verification, and a fresh one is issued only when the
  header is not there at all. The test is \<^verbatim>\<open>!req.headers.authorization\<close>, which the
  empty string passes too: a request with an empty \<^verbatim>\<open>Authorization\<close> header is
  answered with a fresh credential.
\<close>

theorem empty_header_counterexample:
  "authorization (read_request (Some '''')) = Some '''' \<and>
   authorization_header (get_item example_env example_items ''fresh''
      (read_request (Some ''''))) = ''token-fresh''"
  by code_simp

lemma sendItem_status: "status (sendItem its h u) \<noteq> 401"
  by (simp add: sendItem_def split: option.splits)

lemma sendItem_header: "authorization_header (sendItem its h u) = h"
  by (simp add: sendItem_def split: option.splits)

lemma checkOrCreateToken_verify:
  "checkOrCreateToken (e\<lparr>verify := v\<rparr>) fresh req = checkOrCreateToken e fresh req"
  by (simp add: checkOrCreateToken_def)

text \<open>
  C10, as amended: the two endpoints never answer 401; the \<^verbatim>\<open>Authorization\<close> header of
  the answer is the request's own when that is there and not empty, whatever it is, and
  a freshly signed credential exactly when the request's header is absent or empty; and
  the answer does not depend on what verification would say.
\<close>

theorem credential_echoed_unverified:
  "status (get_item e its fresh req) \<noteq> 401 \<and>
   status (get_random e its uuids n fresh req) \<noteq> 401 \<and>
   authorization_header (get_item e its fresh req) =
     (case authorization req of
        None \<Rightarrow> sign e fresh
      | Some t \<Rightarrow> if t = [] then sign e fresh else t) \<and>
   authorization_header (get_random e its uuids n fresh req) =
     authorization_header (get_item e its fresh req) \<and>
   get_item (e\<lparr>verify := v\<rparr>) its fresh req = get_item e its fresh req \<and>
   get_random (e\<lparr>verify := v\<rparr>) its uuids n fresh req = get_random e its uuids n fresh req"
  by (simp add: get_item_def get_random_def sendItem_status sendItem_header
      checkOrCreateToken_verify)
    (simp add: checkOrCreateToken_def no_authorization_def split: option.splits)

theorem credential_echoed_unverified_witness:
  "verify example_env ''forged'' = None \<and>
   status (get_item example_env example_items ''fresh'' (read_request (Some ''forged''))) = 200 \<and>
   authorization_header (get_item example_env example_items ''fresh''
      (read_request (Some ''forged''))) = ''forged'' \<and>
   authorization_header (get_item example_env example_items ''fresh'' (read_request None)) =
     ''token-fresh''"
proof -
  have a: "verify example_env ''forged'' = None" by (simp add: example_env_def)
  have b: "status (get_item example_env example_items ''fresh''
      (read_request (Some ''forged''))) = 200"
    by code_simp
  have c: "sign example_env ''fresh'' = ''token-fresh''" by (simp add: example_env_def)
  from credential_echoed_unverified [of example_env example_items "''fresh''"
      "read_request (Some ''forged'')"]
    credential_echoed_unverified [of example_env example_items "''fresh''" "read_request None"]
    a b c
  show ?thesis by (simp add: read_request_def)
qed

end
